theory Spec2Isabelle
  imports Main
begin

section \<open>JavaScript values and the data of the application\<close>

text \<open>
  The request body is what the body parser yields: an object whose fields hold JSON
  values. Numbers are kept as integers; fractional JSON numbers behave like any other
  non-zero number wherever this development looks at them (they are truthy).
\<close>

datatype jsval =
    Undefined
  | Null
  | JBool bool
  | JNum int
  | JStr string
  | JArr "jsval list"
  | JObj "(string \<times> jsval) list"

text \<open>
  JavaScript's \<^verbatim>\<open>!x\<close> is the negation of this: \<^verbatim>\<open>undefined\<close>, \<^verbatim>\<open>null\<close>,
  \<^verbatim>\<open>false\<close>, \<^verbatim>\<open>0\<close> and \<^verbatim>\<open>""\<close> are falsy, every other value (also a
  string of blanks, an empty array, an empty object) is truthy.
\<close>

fun truthy :: "jsval \<Rightarrow> bool" where
  "truthy Undefined = False"
| "truthy Null = False"
| "truthy (JBool b) = b"
| "truthy (JNum n) = (n \<noteq> 0)"
| "truthy (JStr s) = (s \<noteq> [])"
| "truthy (JArr xs) = True"
| "truthy (JObj fs) = True"

text \<open>
  A stored comment, \<^verbatim>\<open>{ date: new Date(), comment: ctx.request.body["comment"] }\<close>.
  The date is the clock reading in milliseconds.
\<close>

record comment =
  date :: int
  comment :: jsval

text \<open>
  The session object, as far as this code uses it: the field \<^verbatim>\<open>comments\<close> is absent
  (\<open>None\<close>) or holds an array of comments.
\<close>

record session =
  comments :: "comment list option"

text \<open>
  Errors. \<^verbatim>\<open>err.output.payload\<close> is what \<^verbatim>\<open>renderBoomError\<close> reads; a plain
  JavaScript error has no \<^verbatim>\<open>output\<close>.
\<close>

record payload =
  statusCode :: "int option"
  error :: "string option"
  message :: "string option"

record boom_output =
  payload :: "payload option"

record js_error =
  err_name :: string
  err_message :: string
  err_output :: "boom_output option"

text \<open>
  The library call \<^verbatim>\<open>Boom.badData(message)\<close>: an error whose payload is
  status 422, label "Unprocessable Entity" and the given message.
\<close>

definition badData :: "string \<Rightarrow> js_error" where
  "badData msg =
     \<lparr>err_name = ''Error'', err_message = msg,
      err_output = Some \<lparr>payload = Some \<lparr>statusCode = Some 422,
                                      error = Some ''Unprocessable Entity'',
                                      message = Some msg\<rparr>\<rparr>\<rparr>"

text \<open>A plain \<^verbatim>\<open>new Error(message)\<close>, as any failing code may throw it.\<close>

definition plainError :: "string \<Rightarrow> js_error" where
  "plainError msg = \<lparr>err_name = ''Error'', err_message = msg, err_output = None\<rparr>"

text \<open>
  The \<^verbatim>\<open>TypeError\<close> the engine throws when a property of \<^verbatim>\<open>undefined\<close> is
  read or destructured. Only its name matters here; the text of the message is the
  engine's.
\<close>

definition undefinedTypeError :: js_error where
  "undefinedTypeError =
     \<lparr>err_name = ''TypeError'', err_message = ''Cannot read property of undefined'',
      err_output = None\<rparr>"

section \<open>The request context\<close>

text \<open>The three shapes of props the handlers pass to the renderer.\<close>

datatype props =
    EmptyProps
  | CommentsProps "comment list"
  | ErrorProps "int option" "string option" "string option"

record render_options =
  staticMarkup :: bool

record render_args =
  screen :: string
  props :: "props option"
  options :: "render_options option"

text \<open>The response body: nothing yet, a JSON value of the API, or rendered HTML.\<close>

datatype 'h body =
    NoBody
  | JsonComments "comment list"
  | JsonComment comment
  | Html 'h

record 'h ctx =
  session :: session
  request_body :: "string \<rightharpoonup> jsval"
  status :: int
  explicitStatus :: bool
  body :: "'h body"

text \<open>
  The context as the framework hands it to the first handler: status 404, not set
  explicitly, no body.
\<close>

definition createContext :: "session \<Rightarrow> (string \<rightharpoonup> jsval) \<Rightarrow> 'h ctx" where
  "createContext s b =
     \<lparr>session = s, request_body = b, status = 404, explicitStatus = False, body = NoBody\<rparr>"

text \<open>
  The framework's setters. \<^verbatim>\<open>ctx.status = n\<close> asserts that \<open>n\<close> is a status
  code, an integer from 100 to 999, and throws an \<^verbatim>\<open>AssertionError\<close> otherwise,
  leaving the context as it was; for a status code it stores the code and records that
  the status was set explicitly. \<^verbatim>\<open>ctx.body = v\<close> (for a value that is not null)
  first sets the status to 200, through the same setter, unless the status was set
  explicitly before, and then stores the body.
\<close>

definition invalidStatusError :: js_error where
  "invalidStatusError =
     \<lparr>err_name = ''AssertionError'', err_message = ''invalid status code'',
      err_output = None\<rparr>"

definition set_status :: "'h ctx \<Rightarrow> int \<Rightarrow> js_error + 'h ctx" where
  "set_status c n =
     (if 100 \<le> n \<and> n \<le> 999
      then Inr (c\<lparr>status := n, explicitStatus := True\<rparr>)
      else Inl invalidStatusError)"

definition set_body :: "'h ctx \<Rightarrow> 'h body \<Rightarrow> js_error + 'h ctx" where
  "set_body c v =
     (case (if explicitStatus c then Inr c else set_status c 200) of
        Inl e \<Rightarrow> Inl e
      | Inr c1 \<Rightarrow> Inr (c1\<lparr>body := v\<rparr>))"

text \<open>\<^verbatim>\<open>ctx.request.body[k]\<close>: a missing field reads as \<^verbatim>\<open>undefined\<close>.\<close>

definition body_field :: "'h ctx \<Rightarrow> string \<Rightarrow> jsval" where
  "body_field c k = (case request_body c k of None \<Rightarrow> Undefined | Some v \<Rightarrow> v)"

text \<open>
  The expression \<^verbatim>\<open>ctx.session.comments || []\<close> of all three comment routes: an
  array, also an empty one, is truthy, so only an absent field yields the fresh array.
\<close>

definition comments_or_empty :: "session \<Rightarrow> comment list" where
  "comments_or_empty s = (case comments s of None \<Rightarrow> [] | Some cs \<Rightarrow> cs)"

section \<open>server/ssr.js\<close>

text \<open>
  The rendering engine is a parameter \<open>R\<close>: given the page path, the props and the
  options it yields HTML or throws. \<^verbatim>\<open>render\<close> defaults the props to \<^verbatim>\<open>{}\<close>,
  asks the engine for \<^verbatim>\<open>/${screen}\<close>, stores the HTML as the body and returns it.
  A handler's outcome is the thrown error or the returned value, paired with the context
  as the handler left it.
\<close>

type_synonym 'h engine = "string \<Rightarrow> props \<Rightarrow> render_options option \<Rightarrow> js_error + 'h"

definition render :: "'h engine \<Rightarrow> render_args \<Rightarrow> 'h ctx \<Rightarrow> (js_error + 'h) \<times> 'h ctx" where
  "render R args c =
     (case R (''/'' @ screen args)
             (case props args of None \<Rightarrow> EmptyProps | Some p \<Rightarrow> p)
             (options args) of
        Inl e \<Rightarrow> (Inl e, c)
      | Inr html \<Rightarrow>
          (case set_body c (Html html) of
             Inl e \<Rightarrow> (Inl e, c)
           | Inr c1 \<Rightarrow> (Inr html, c1)))"

definition renderBoomError :: "'h engine \<Rightarrow> js_error \<Rightarrow> 'h ctx \<Rightarrow> (js_error + 'h) \<times> 'h ctx" where
  "renderBoomError R err c =
     (case err_output err of
        None \<Rightarrow> (Inl undefinedTypeError, c)
      | Some out \<Rightarrow>
          (case payload out of
             None \<Rightarrow> (Inl undefinedTypeError, c)
           | Some p \<Rightarrow>
               (case set_status c
                       (case statusCode p of
                          None \<Rightarrow> 500
                        | Some n \<Rightarrow> if n = 0 then 500 else n) of
                  Inl e \<Rightarrow> (Inl e, c)
                | Inr c1 \<Rightarrow>
                    render R
                      \<lparr>screen = (if status c1 \<ge> 500 then ''errors/500'' else ''errors/400''),
                       props = Some (ErrorProps (statusCode p) (error p) (message p)),
                       options = Some \<lparr>staticMarkup = True\<rparr>\<rparr>
                      c1)))"

section \<open>server/router.js\<close>

definition get_home :: "'h engine \<Rightarrow> 'h ctx \<Rightarrow> (js_error + unit) \<times> 'h ctx" where
  "get_home R c =
     (case render R \<lparr>screen = ''Home'', props = None, options = None\<rparr> c of
        (Inl e, c') \<Rightarrow> (Inl e, c')
      | (Inr html, c') \<Rightarrow> (Inr (), c'))"

definition get_comments :: "'h engine \<Rightarrow> 'h ctx \<Rightarrow> (js_error + 'h) \<times> 'h ctx" where
  "get_comments R c =
     (let cs = comments_or_empty (session c)
      in render R \<lparr>screen = ''Comments'', props = Some (CommentsProps cs), options = None\<rparr> c)"

definition get_api_comments :: "'h ctx \<Rightarrow> (js_error + unit) \<times> 'h ctx" where
  "get_api_comments c =
     (let cs = comments_or_empty (session c);
          c1 = c\<lparr>session := (session c)\<lparr>comments := Some cs\<rparr>\<rparr>
      in case set_body c1 (JsonComments cs) of
           Inl e \<Rightarrow> (Inl e, c1)
         | Inr c2 \<Rightarrow> (Inr (), c2))"

text \<open>\<open>now\<close> is the clock reading that \<^verbatim>\<open>new Date()\<close> takes.\<close>

definition post_api_comments :: "int \<Rightarrow> 'h ctx \<Rightarrow> (js_error + unit) \<times> 'h ctx" where
  "post_api_comments now c =
     (let cs = comments_or_empty (session c);
          c1 = c\<lparr>session := (session c)\<lparr>comments := Some cs\<rparr>\<rparr>
      in if \<not> truthy (body_field c1 ''comment'')
         then (Inl (badData ''Empty comments not allowed''), c1)
         else
           (let cm = \<lparr>date = now, comment = body_field c1 ''comment''\<rparr>;
                c2 = c1\<lparr>session := (session c1)\<lparr>comments := Some (cs @ [cm])\<rparr>\<rparr>
            in case set_status c2 201 of
                 Inl e \<Rightarrow> (Inl e, c2)
               | Inr c3 \<Rightarrow>
                   (case set_body c3 (JsonComment cm) of
                      Inl e \<Rightarrow> (Inl e, c3)
                    | Inr c4 \<Rightarrow> (Inr (), c4))))"


text \<open>The dispatch table of the router: the four registered routes.\<close>

datatype route = GetHome | GetComments | GetApiComments | PostApiComments

definition dispatch :: "'h engine \<Rightarrow> int \<Rightarrow> route \<Rightarrow> 'h ctx \<Rightarrow> (js_error + unit) \<times> 'h ctx" where
  "dispatch R now rt c =
     (case rt of
        GetHome \<Rightarrow> get_home R c
      | GetComments \<Rightarrow>
          (case get_comments R c of
             (Inl e, c') \<Rightarrow> (Inl e, c')
           | (Inr html, c') \<Rightarrow> (Inr (), c'))
      | GetApiComments \<Rightarrow> get_api_comments c
      | PostApiComments \<Rightarrow> post_api_comments now c)"

section \<open>Sessions keyed by token\<close>

text \<open>
  Modelled from the spec: the session collaborator, which server/app.js wires in front
  of the router and which is not part of the sources at hand. The spec describes it as
  per-client state looked up from the request's token, created lazily on first access,
  behind an interface \<^verbatim>\<open>get(token) -> SessionData\<close> /
  \<^verbatim>\<open>set(token, SessionData)\<close>. A request carries its token, the route, the parsed
  body and the clock reading of its handling.
\<close>

type_synonym token = string

record request =
  req_token :: token
  req_route :: route
  req_body :: "string \<rightharpoonup> jsval"
  req_time :: int

type_synonym store = "token \<rightharpoonup> session"

text \<open>
  Modelled from the spec: \<^verbatim>\<open>get(token)\<close>, with the lazily created session being
  the one without a \<^verbatim>\<open>comments\<close> field.
\<close>

definition get_session :: "store \<Rightarrow> token \<Rightarrow> session" where
  "get_session st t = (case st t of None \<Rightarrow> \<lparr>comments = None\<rparr> | Some s \<Rightarrow> s)"

text \<open>
  Modelled from the spec: one request. The session of the request's token becomes
  \<^verbatim>\<open>ctx.session\<close>, the router's handler runs, and the session object as the handler
  left it is stored under the same token (\<^verbatim>\<open>set(token, SessionData)\<close>).
\<close>

definition serve :: "'h engine \<Rightarrow> store \<Rightarrow> request \<Rightarrow> ((js_error + unit) \<times> 'h ctx) \<times> store" where
  "serve R st rq =
     (let r = dispatch R (req_time rq) (req_route rq)
                (createContext (get_session st (req_token rq)) (req_body rq))
      in (r, st(req_token rq \<mapsto> session (snd r))))"

text \<open>
  Modelled from the spec: a sequence of requests served one after the other, with the
  list of their responses and the final store.
\<close>

fun run :: "'h engine \<Rightarrow> store \<Rightarrow> request list \<Rightarrow> ((js_error + unit) \<times> 'h ctx) list \<times> store" where
  "run R st [] = ([], st)"
| "run R st (rq # rqs) =
     (let sv = serve R st rq;
          rest = run R (snd sv) rqs
      in (fst sv # fst rest, snd rest))"

text \<open>The responses, in order, to the requests that carry token \<open>t\<close>.\<close>

definition responses_to :: "token \<Rightarrow> request list \<Rightarrow> 'a list \<Rightarrow> 'a list" where
  "responses_to t rqs rsps = map snd (filter (\<lambda>p. req_token (fst p) = t) (zip rqs rsps))"

section \<open>The error translator at the boundary\<close>

text \<open>
  Modelled from the spec: whether an error carries a structured HTTP payload, "kind
  HttpError with statusCode, error, message". The test belongs to the boundary that
  catches the handlers' errors in server/app.js, which is not part of the sources at
  hand.
\<close>

definition is_http_error :: "js_error \<Rightarrow> bool" where
  "is_http_error err =
     (case err_output err of
        None \<Rightarrow> False
      | Some out \<Rightarrow>
          (case payload out of
             None \<Rightarrow> False
           | Some p \<Rightarrow> statusCode p \<noteq> None \<and> error p \<noteq> None \<and> message p \<noteq> None))"

text \<open>
  Modelled from the spec: what an unexpected error is treated as, "a 500 with a generic
  message". The spec does not give the wording of the message, so it is the parameter
  \<open>generic\<close>; the label is the reason phrase of status 500.
\<close>

definition internalError :: "string \<Rightarrow> js_error" where
  "internalError generic =
     \<lparr>err_name = ''Error'', err_message = generic,
      err_output = Some \<lparr>payload = Some \<lparr>statusCode = Some 500,
                                      error = Some ''Internal Server Error'',
                                      message = Some generic\<rparr>\<rparr>\<rparr>"

text \<open>
  Modelled from the spec: \<^verbatim>\<open>translate(error)\<close>, invoked once per failed request by
  the boundary of server/app.js. A structured error goes to \<^verbatim>\<open>renderBoomError\<close> as
  it is, any other error is treated as the generic 500 error.
\<close>

definition translate :: "string \<Rightarrow> 'h engine \<Rightarrow> js_error \<Rightarrow> 'h ctx \<Rightarrow> (js_error + 'h) \<times> 'h ctx" where
  "translate generic R err c =
     (if is_http_error err
      then renderBoomError R err c
      else renderBoomError R (internalError generic) c)"

section \<open>A rendering engine for the examples\<close>

text \<open>
  An engine that never throws and whose "HTML" is the very call it received, so that
  the examples show which page was asked for and with which props.
\<close>

type_synonym echo = "string \<times> props \<times> render_options option"

definition echo_engine :: "echo engine" where
  "echo_engine path p opts = Inr (path, p, opts)"

section \<open>Basic facts about the handlers\<close>

lemma render_session: "session (snd (render R args c)) = session c"
  by (simp add: render_def set_body_def set_status_def split: sum.splits)

lemma post_api_comments_truthy:
  "truthy (body_field c ''comment'') \<Longrightarrow>
   post_api_comments now c =
     (Inr (), (c\<lparr>session := (session c)\<lparr>comments :=
                   Some (comments_or_empty (session c) @ [\<lparr>date = now, comment = body_field c ''comment''\<rparr>])\<rparr>,
               status := 201, explicitStatus := True,
               body := JsonComment \<lparr>date = now, comment = body_field c ''comment''\<rparr>\<rparr>))"
  by (simp add: post_api_comments_def Let_def set_body_def set_status_def body_field_def)

lemma post_api_comments_falsy:
  "\<not> truthy (body_field c ''comment'') \<Longrightarrow>
   post_api_comments now c =
     (Inl (badData ''Empty comments not allowed''),
      c\<lparr>session := (session c)\<lparr>comments := Some (comments_or_empty (session c))\<rparr>\<rparr>)"
  by (simp add: post_api_comments_def Let_def body_field_def)

lemma get_api_comments_eq:
  "get_api_comments c =
     (Inr (), c\<lparr>session := (session c)\<lparr>comments := Some (comments_or_empty (session c))\<rparr>,
               status := (if explicitStatus c then status c else 200),
               explicitStatus := True,
               body := JsonComments (comments_or_empty (session c))\<rparr>)"
  by (simp add: get_api_comments_def Let_def set_body_def set_status_def)

lemma renderBoomError_badData:
  "status (snd (renderBoomError R (badData msg) c)) = 422"
  by (simp add: renderBoomError_def badData_def Let_def render_def set_body_def set_status_def
        split: sum.splits)

lemma renderBoomError_invalid_status:
  "err_output err = Some out \<Longrightarrow> payload out = Some p \<Longrightarrow> statusCode p = Some n \<Longrightarrow>
   n \<noteq> 0 \<Longrightarrow> n < 100 \<or> 999 < n \<Longrightarrow>
   renderBoomError R err c = (Inl invalidStatusError, c)"
  by (auto simp: renderBoomError_def set_status_def)

section \<open>Basic facts about the session store\<close>

lemma serve_other: "req_token rq \<noteq> t \<Longrightarrow> snd (serve R st rq) t = st t"
  by (simp add: serve_def Let_def)

lemma serve_own:
  "st1 (req_token rq) = st2 (req_token rq) \<Longrightarrow>
   fst (serve R st1 rq) = fst (serve R st2 rq)
   \<and> snd (serve R st1 rq) (req_token rq) = snd (serve R st2 rq) (req_token rq)"
  by (simp add: serve_def Let_def get_session_def)

lemma run_isolated:
  "st1 t = st2 t \<Longrightarrow>
   responses_to t rqs (fst (run R st1 rqs)) = fst (run R st2 (filter (\<lambda>rq. req_token rq = t) rqs))
   \<and> snd (run R st1 rqs) t = snd (run R st2 (filter (\<lambda>rq. req_token rq = t) rqs)) t"
proof (induction rqs arbitrary: st1 st2)
  case Nil
  then show ?case by (simp add: responses_to_def)
next
  case (Cons rq rqs)
  show ?case
  proof (cases "req_token rq = t")
    case True
    with Cons.prems have agree: "st1 (req_token rq) = st2 (req_token rq)" by simp
    from serve_own[of st1 rq st2 R] agree True
    have rsp: "fst (serve R st1 rq) = fst (serve R st2 rq)"
      and st: "snd (serve R st1 rq) t = snd (serve R st2 rq) t" by simp_all
    from Cons.IH[of "snd (serve R st1 rq)" "snd (serve R st2 rq)"] st rsp True show ?thesis
      by (simp add: responses_to_def Let_def)
  next
    case False
    then have "snd (serve R st1 rq) t = st2 t"
      using Cons.prems by (simp add: serve_other)
    with Cons.IH[of "snd (serve R st1 rq)" st2] False show ?thesis
      by (simp add: responses_to_def Let_def)
  qed
qed

section \<open>The claims\<close>

subsection \<open>C1: empty and blank comments\<close>

text \<open>
  C1, as amended. The claim says that posting the empty string and posting a string of
  blanks are both rejected. The handler tests \<^verbatim>\<open>!ctx.request.body["comment"]\<close>, and
  only the empty string is falsy. For a request whose \<^verbatim>\<open>comment\<close> field is a string
  \<open>s\<close>: if \<open>s\<close> is empty the handler throws the 422 "Unprocessable Entity" error with
  the message "Empty comments not allowed", the comment sequence of the session reads as
  before, and the error translator answers that error with status 422; if \<open>s\<close> is not
  empty, blanks included, the handler succeeds with status 201 and the sequence has grown
  by the new comment.
\<close>

theorem post_api_comments_string:
  assumes "request_body c ''comment'' = Some (JStr s)"
  shows "if s = []
         then fst (post_api_comments now c) = Inl (badData ''Empty comments not allowed'')
            \<and> comments_or_empty (session (snd (post_api_comments now c)))
                = comments_or_empty (session c)
            \<and> status (snd (renderBoomError R (badData ''Empty comments not allowed'')
                              (snd (post_api_comments now c)))) = 422
         else fst (post_api_comments now c) = Inr ()
            \<and> status (snd (post_api_comments now c)) = 201
            \<and> comments_or_empty (session (snd (post_api_comments now c)))
                = comments_or_empty (session c) @ [\<lparr>date = now, comment = JStr s\<rparr>]"
proof (cases "s = []")
  case True
  with assms have "\<not> truthy (body_field c ''comment'')"
    by (simp add: body_field_def)
  then have "post_api_comments now c =
      (Inl (badData ''Empty comments not allowed''),
       c\<lparr>session := (session c)\<lparr>comments := Some (comments_or_empty (session c))\<rparr>\<rparr>)"
    by (rule post_api_comments_falsy)
  with True show ?thesis
    by (simp add: renderBoomError_badData comments_or_empty_def)
next
  case False
  with assms have field: "body_field c ''comment'' = JStr s"
    and tr: "truthy (body_field c ''comment'')"
    by (simp_all add: body_field_def)
  from post_api_comments_truthy[OF tr, of now] field False show ?thesis
    by (simp add: comments_or_empty_def)
qed

theorem post_api_comments_string_witness:
  "request_body (createContext \<lparr>comments = Some [\<lparr>date = 5, comment = JStr ''first''\<rparr>]\<rparr>
                   [''comment'' \<mapsto> JStr []] :: echo ctx) ''comment'' = Some (JStr [])
   \<and> fst (post_api_comments 1000
            (createContext \<lparr>comments = Some [\<lparr>date = 5, comment = JStr ''first''\<rparr>]\<rparr>
               [''comment'' \<mapsto> JStr []] :: echo ctx))
       = Inl (badData ''Empty comments not allowed'')
   \<and> comments_or_empty (session (snd (post_api_comments 1000
            (createContext \<lparr>comments = Some [\<lparr>date = 5, comment = JStr ''first''\<rparr>]\<rparr>
               [''comment'' \<mapsto> JStr []] :: echo ctx))))
       = [\<lparr>date = 5, comment = JStr ''first''\<rparr>]
   \<and> status (snd (renderBoomError echo_engine (badData ''Empty comments not allowed'')
            (snd (post_api_comments 1000
               (createContext \<lparr>comments = Some [\<lparr>date = 5, comment = JStr ''first''\<rparr>]\<rparr>
                  [''comment'' \<mapsto> JStr []] :: echo ctx))))) = 422"
proof -
  have h: "request_body (createContext \<lparr>comments = Some [\<lparr>date = 5, comment = JStr ''first''\<rparr>]\<rparr>
                   [''comment'' \<mapsto> JStr []] :: echo ctx) ''comment'' = Some (JStr [])"
    by (simp add: createContext_def)
  show ?thesis
    using h post_api_comments_string[OF h, of 1000 echo_engine]
    by (simp add: createContext_def comments_or_empty_def)
qed

text \<open>
  The claim fails at a string of three blanks: the request succeeds with status 201 and
  the blank comment is stored.
\<close>

theorem post_api_comments_blank_counterexample:
  "\<not> isl (fst (post_api_comments 1000
            (createContext \<lparr>comments = Some []\<rparr> [''comment'' \<mapsto> JStr ''   ''] :: echo ctx)))
   \<and> status (snd (post_api_comments 1000
            (createContext \<lparr>comments = Some []\<rparr> [''comment'' \<mapsto> JStr ''   ''] :: echo ctx))) = 201
   \<and> comments (session (snd (post_api_comments 1000
            (createContext \<lparr>comments = Some []\<rparr> [''comment'' \<mapsto> JStr ''   ''] :: echo ctx))))
       = Some [\<lparr>date = 1000, comment = JStr ''   ''\<rparr>]
   \<and> comments (session (snd (post_api_comments 1000
            (createContext \<lparr>comments = Some []\<rparr> [''comment'' \<mapsto> JStr ''   ''] :: echo ctx))))
       \<noteq> Some []"
  by (simp add: post_api_comments_def createContext_def comments_or_empty_def body_field_def
        set_body_def set_status_def Let_def)

subsection \<open>C2: errors without a structured payload\<close>

text \<open>
  C2. For every error that does not carry a structured HTTP payload, whatever its name
  and message, and for every rendering engine and context: the translator sets the
  status to 500 and asks the engine, with static markup, for the page \<^verbatim>\<open>errors/500\<close>
  with the props 500, "Internal Server Error" and the generic message; the status is
  500 whether the engine renders or throws, and when it renders its HTML is returned
  and is the body. The outcome is the same for every such error: nothing of the
  original error, in particular not its message, is among what the engine is given, so
  the body cannot contain it.
\<close>

theorem translate_unstructured:
  assumes "\<not> is_http_error err"
  shows "translate generic R err c =
           render R \<lparr>screen = ''errors/500'',
                     props = Some (ErrorProps (Some 500) (Some ''Internal Server Error'')
                                     (Some generic)),
                     options = Some \<lparr>staticMarkup = True\<rparr>\<rparr>
             (c\<lparr>status := 500, explicitStatus := True\<rparr>)
       \<and> status (snd (translate generic R err c)) = 500
       \<and> (\<forall>html. R ''/errors/500''
                    (ErrorProps (Some 500) (Some ''Internal Server Error'') (Some generic))
                    (Some \<lparr>staticMarkup = True\<rparr>) = Inr html \<longrightarrow>
             fst (translate generic R err c) = Inr html
           \<and> body (snd (translate generic R err c)) = Html html)
       \<and> (\<forall>err'. \<not> is_http_error err' \<longrightarrow>
             translate generic R err' c = translate generic R err c)"
proof -
  have run: "translate generic R e c =
           render R \<lparr>screen = ''errors/500'',
                     props = Some (ErrorProps (Some 500) (Some ''Internal Server Error'')
                                     (Some generic)),
                     options = Some \<lparr>staticMarkup = True\<rparr>\<rparr>
             (c\<lparr>status := 500, explicitStatus := True\<rparr>)"
    if "\<not> is_http_error e" for e
    using that
    by (simp add: translate_def renderBoomError_def internalError_def set_status_def)
  have st: "status (snd (translate generic R err c)) = 500"
    by (simp add: run[OF assms] render_def set_body_def split: sum.splits)
  have html: "fst (translate generic R err c) = Inr h
           \<and> body (snd (translate generic R err c)) = Html h"
    if "R ''/errors/500''
          (ErrorProps (Some 500) (Some ''Internal Server Error'') (Some generic))
          (Some \<lparr>staticMarkup = True\<rparr>) = Inr h" for h
    using that by (simp add: run[OF assms] render_def set_body_def)
  show ?thesis
    using run[OF assms] st html by (simp add: run)
qed

theorem translate_unstructured_witness:
  "\<not> is_http_error (plainError ''connect ECONNREFUSED 10.0.0.5:5432'')
   \<and> translate ''An internal server error occurred'' echo_engine
        (plainError ''connect ECONNREFUSED 10.0.0.5:5432'')
        (createContext \<lparr>comments = None\<rparr> Map.empty)
       = (Inr (''/errors/500'',
               ErrorProps (Some 500) (Some ''Internal Server Error'')
                 (Some ''An internal server error occurred''),
               Some \<lparr>staticMarkup = True\<rparr>),
          \<lparr>session = \<lparr>comments = None\<rparr>, request_body = Map.empty, status = 500,
           explicitStatus = True,
           body = Html (''/errors/500'',
                        ErrorProps (Some 500) (Some ''Internal Server Error'')
                          (Some ''An internal server error occurred''),
                        Some \<lparr>staticMarkup = True\<rparr>)\<rparr>)"
proof -
  have h: "\<not> is_http_error (plainError ''connect ECONNREFUSED 10.0.0.5:5432'')"
    by (simp add: is_http_error_def plainError_def)
  show ?thesis
    using h
      translate_unstructured[OF h, of "''An internal server error occurred''" echo_engine
        "createContext \<lparr>comments = None\<rparr> Map.empty"]
    by (simp add: render_def echo_engine_def set_body_def createContext_def)
qed

subsection \<open>C3: a non-empty string is appended\<close>

text \<open>
  C3. For every context (hence every session) whose request carries a non-empty string
  \<open>s\<close> as \<^verbatim>\<open>comment\<close>: the handler does not throw, the status is 201, the body is
  the created comment, and a following \<^verbatim>\<open>GET /api/comments\<close> on the session the
  handler left succeeds with the old sequence followed by the new comment. The last
  comment of the stored sequence has text \<open>s\<close> and the date \<open>now\<close> read by
  \<^verbatim>\<open>new Date()\<close>; the date is always a value, and it is not earlier than any clock
  reading \<open>t0\<close> taken before, the clock not running backwards (\<open>t0 \<le> now\<close>).
\<close>

theorem post_api_comments_appends:
  assumes "request_body c ''comment'' = Some (JStr s)" and "s \<noteq> []" and "t0 \<le> now"
  shows "fst (post_api_comments now c) = Inr ()
       \<and> status (snd (post_api_comments now c)) = 201
       \<and> body (snd (post_api_comments now c)) = JsonComment \<lparr>date = now, comment = JStr s\<rparr>
       \<and> fst (get_api_comments (l\<lparr>session := session (snd (post_api_comments now c))\<rparr>)) = Inr ()
       \<and> body (snd (get_api_comments (l\<lparr>session := session (snd (post_api_comments now c))\<rparr>)))
           = JsonComments (comments_or_empty (session c) @ [\<lparr>date = now, comment = JStr s\<rparr>])
       \<and> comment (last (comments_or_empty (session (snd (post_api_comments now c))))) = JStr s
       \<and> t0 \<le> date (last (comments_or_empty (session (snd (post_api_comments now c)))))"
proof -
  from assms have field: "body_field c ''comment'' = JStr s"
    and tr: "truthy (body_field c ''comment'')"
    by (simp_all add: body_field_def)
  from post_api_comments_truthy[OF tr, of now] field assms(3) show ?thesis
    by (simp add: get_api_comments_eq comments_or_empty_def)
qed

theorem post_api_comments_appends_witness:
  "request_body (createContext \<lparr>comments = None\<rparr> [''comment'' \<mapsto> JStr ''hello''] :: echo ctx)
      ''comment'' = Some (JStr ''hello'')
   \<and> ''hello'' \<noteq> []
   \<and> (999 :: int) \<le> 1000
   \<and> post_api_comments 1000
        (createContext \<lparr>comments = None\<rparr> [''comment'' \<mapsto> JStr ''hello''] :: echo ctx)
       = (Inr (),
          \<lparr>session = \<lparr>comments = Some [\<lparr>date = 1000, comment = JStr ''hello''\<rparr>]\<rparr>,
           request_body = [''comment'' \<mapsto> JStr ''hello''], status = 201,
           explicitStatus = True,
           body = JsonComment \<lparr>date = 1000, comment = JStr ''hello''\<rparr>\<rparr>)
   \<and> body (snd (get_api_comments
        ((createContext \<lparr>comments = None\<rparr> Map.empty :: echo ctx)\<lparr>session :=
           session (snd (post_api_comments 1000
             (createContext \<lparr>comments = None\<rparr> [''comment'' \<mapsto> JStr ''hello''] :: echo ctx)))\<rparr>)))
       = JsonComments [\<lparr>date = 1000, comment = JStr ''hello''\<rparr>]
   \<and> (999 :: int) \<le> date (last (comments_or_empty (session (snd (post_api_comments 1000
        (createContext \<lparr>comments = None\<rparr> [''comment'' \<mapsto> JStr ''hello''] :: echo ctx))))))"
proof -
  have h1: "request_body (createContext \<lparr>comments = None\<rparr> [''comment'' \<mapsto> JStr ''hello''] :: echo ctx)
      ''comment'' = Some (JStr ''hello'')"
    by (simp add: createContext_def)
  have h2: "''hello'' \<noteq> []" by simp
  have h3: "(999 :: int) \<le> 1000" by simp
  have run: "post_api_comments 1000
        (createContext \<lparr>comments = None\<rparr> [''comment'' \<mapsto> JStr ''hello''] :: echo ctx)
       = (Inr (),
          \<lparr>session = \<lparr>comments = Some [\<lparr>date = 1000, comment = JStr ''hello''\<rparr>]\<rparr>,
           request_body = [''comment'' \<mapsto> JStr ''hello''], status = 201,
           explicitStatus = True,
           body = JsonComment \<lparr>date = 1000, comment = JStr ''hello''\<rparr>\<rparr>)"
    by (simp add: post_api_comments_def createContext_def comments_or_empty_def body_field_def
          set_body_def set_status_def Let_def)
  show ?thesis
    using h1 h2 h3 run
      post_api_comments_appends[OF h1 h2 h3,
        where l = "createContext \<lparr>comments = None\<rparr> Map.empty :: echo ctx"]
    by (simp add: createContext_def comments_or_empty_def)
qed

subsection \<open>C4: appending keeps the order\<close>

text \<open>
  C4. For every session and accepted comments \<open>a\<close> then \<open>b\<close>: one append leaves the
  earlier comments in place and puts the new one after them; after the request with
  \<open>a\<close> and then, on the session it left, the request with \<open>b\<close>, a
  \<^verbatim>\<open>GET /api/comments\<close> returns the earlier comments followed by \<open>a\<close> and \<open>b\<close> in this
  order, which for a session without earlier comments is the sequence of \<open>a\<close> and \<open>b\<close>.
\<close>

theorem post_api_comments_order:
  assumes "truthy (body_field ca ''comment'')" and "truthy (body_field cb ''comment'')"
  shows "comments_or_empty (session (snd (post_api_comments ta ca)))
           = comments_or_empty (session ca) @ [\<lparr>date = ta, comment = body_field ca ''comment''\<rparr>]
       \<and> body (snd (get_api_comments (l\<lparr>session :=
             session (snd (post_api_comments tb
               (cb\<lparr>session := session (snd (post_api_comments ta ca))\<rparr>)))\<rparr>)))
           = JsonComments (comments_or_empty (session ca)
                @ [\<lparr>date = ta, comment = body_field ca ''comment''\<rparr>,
                   \<lparr>date = tb, comment = body_field cb ''comment''\<rparr>])
       \<and> (comments (session ca) = None \<longrightarrow>
            body (snd (get_api_comments (l\<lparr>session :=
              session (snd (post_api_comments tb
                (cb\<lparr>session := session (snd (post_api_comments ta ca))\<rparr>)))\<rparr>)))
            = JsonComments [\<lparr>date = ta, comment = body_field ca ''comment''\<rparr>,
                            \<lparr>date = tb, comment = body_field cb ''comment''\<rparr>])"
proof -
  let ?cb = "cb\<lparr>session := session (snd (post_api_comments ta ca))\<rparr>"
  have first: "session (snd (post_api_comments ta ca)) =
      (session ca)\<lparr>comments := Some (comments_or_empty (session ca)
         @ [\<lparr>date = ta, comment = body_field ca ''comment''\<rparr>])\<rparr>"
    by (simp add: post_api_comments_truthy[OF assms(1)])
  have "truthy (body_field ?cb ''comment'')"
    using assms(2) by (simp add: body_field_def)
  from post_api_comments_truthy[OF this, of tb]
  have second: "session (snd (post_api_comments tb ?cb)) =
      (session ca)\<lparr>comments := Some (comments_or_empty (session ca)
         @ [\<lparr>date = ta, comment = body_field ca ''comment''\<rparr>,
            \<lparr>date = tb, comment = body_field cb ''comment''\<rparr>])\<rparr>"
    by (simp add: first comments_or_empty_def body_field_def)
  have c1: "comments_or_empty (session (snd (post_api_comments ta ca)))
           = comments_or_empty (session ca) @ [\<lparr>date = ta, comment = body_field ca ''comment''\<rparr>]"
    by (simp add: first comments_or_empty_def)
  have c2: "body (snd (get_api_comments (l\<lparr>session := session (snd (post_api_comments tb ?cb))\<rparr>)))
           = JsonComments (comments_or_empty (session ca)
                @ [\<lparr>date = ta, comment = body_field ca ''comment''\<rparr>,
                   \<lparr>date = tb, comment = body_field cb ''comment''\<rparr>])"
    by (simp only: second) (simp add: get_api_comments_eq comments_or_empty_def)
  have c3: "body (snd (get_api_comments (l\<lparr>session := session (snd (post_api_comments tb ?cb))\<rparr>)))
            = JsonComments [\<lparr>date = ta, comment = body_field ca ''comment''\<rparr>,
                            \<lparr>date = tb, comment = body_field cb ''comment''\<rparr>]"
    if "comments (session ca) = None"
    using that by (simp only: c2) (simp add: comments_or_empty_def)
  show ?thesis
    by (intro conjI impI) (fact c1, fact c2, erule c3)
qed

theorem post_api_comments_order_witness:
  "truthy (body_field (createContext \<lparr>comments = None\<rparr> [''comment'' \<mapsto> JStr ''a''] :: echo ctx)
             ''comment'')
   \<and> truthy (body_field (createContext \<lparr>comments = None\<rparr> [''comment'' \<mapsto> JStr ''b''] :: echo ctx)
             ''comment'')
   \<and> comments (session (createContext \<lparr>comments = None\<rparr> [''comment'' \<mapsto> JStr ''a''] :: echo ctx))
       = None
   \<and> body (snd (get_api_comments
        ((createContext \<lparr>comments = None\<rparr> Map.empty :: echo ctx)\<lparr>session :=
           session (snd (post_api_comments 20
             ((createContext \<lparr>comments = None\<rparr> [''comment'' \<mapsto> JStr ''b''] :: echo ctx)\<lparr>session :=
                session (snd (post_api_comments 10
                  (createContext \<lparr>comments = None\<rparr> [''comment'' \<mapsto> JStr ''a''] :: echo ctx)))\<rparr>)))\<rparr>)))
       = JsonComments [\<lparr>date = 10, comment = JStr ''a''\<rparr>, \<lparr>date = 20, comment = JStr ''b''\<rparr>]"
proof -
  have h1: "truthy (body_field
      (createContext \<lparr>comments = None\<rparr> [''comment'' \<mapsto> JStr ''a''] :: echo ctx) ''comment'')"
    by (simp add: createContext_def body_field_def)
  have h2: "truthy (body_field
      (createContext \<lparr>comments = None\<rparr> [''comment'' \<mapsto> JStr ''b''] :: echo ctx) ''comment'')"
    by (simp add: createContext_def body_field_def)
  have h3: "comments (session
      (createContext \<lparr>comments = None\<rparr> [''comment'' \<mapsto> JStr ''a''] :: echo ctx)) = None"
    by (simp add: createContext_def)
  show ?thesis
    using h1 h2 h3
      post_api_comments_order[OF h1 h2,
        where l = "createContext \<lparr>comments = None\<rparr> Map.empty :: echo ctx"
          and ta = 10 and tb = 20]
    by (simp add: createContext_def comments_or_empty_def body_field_def)
qed

subsection \<open>C5: listing never fails\<close>

text \<open>
  C5. Reading the comments of a session, \<^verbatim>\<open>ctx.session.comments || []\<close>, is total:
  \<^verbatim>\<open>GET /api/comments\<close> never throws and its body is that sequence, which is empty
  for a session without the \<^verbatim>\<open>comments\<close> field; \<^verbatim>\<open>GET /comments\<close> hands the same
  sequence, again empty for such a session, to the rendering engine as the props of the
  Comments page.
\<close>

theorem comments_listing_total:
  "fst (get_api_comments c) = Inr ()
 \<and> body (snd (get_api_comments c)) = JsonComments (comments_or_empty (session c))
 \<and> body (snd (get_api_comments (c\<lparr>session := s\<lparr>comments := None\<rparr>\<rparr>))) = JsonComments []
 \<and> get_comments R c =
     render R \<lparr>screen = ''Comments'',
               props = Some (CommentsProps (comments_or_empty (session c))),
               options = None\<rparr> c
 \<and> get_comments R (c\<lparr>session := s\<lparr>comments := None\<rparr>\<rparr>) =
     render R \<lparr>screen = ''Comments'', props = Some (CommentsProps []), options = None\<rparr>
       (c\<lparr>session := s\<lparr>comments := None\<rparr>\<rparr>)"
  by (simp add: get_api_comments_eq get_comments_def comments_or_empty_def Let_def)

subsection \<open>C6: GET /api/comments\<close>

text \<open>
  C6. For every session \<open>s\<close> and request body \<open>b\<close>, \<^verbatim>\<open>GET /api/comments\<close> on the
  context of a new request returns without throwing; the status is 200, the body is the
  session's comment sequence, and the session is as before except that an absent
  \<^verbatim>\<open>comments\<close> field now holds the empty sequence. Nothing else of the context
  changes.
\<close>

theorem get_api_comments_ok:
  "get_api_comments (createContext s b :: 'h ctx) =
     (Inr (),
      \<lparr>session = (case comments s of None \<Rightarrow> s\<lparr>comments := Some []\<rparr> | Some cs \<Rightarrow> s),
       request_body = b, status = 200, explicitStatus = True,
       body = JsonComments (comments_or_empty s)\<rparr>)"
  by (simp add: get_api_comments_eq createContext_def comments_or_empty_def split: option.splits)

subsection \<open>C7: errors with a structured payload\<close>

text \<open>
  C7. For every error whose payload carries a status code \<open>n\<close>, a code from 100 to
  999 as the framework's status setter accepts it: \<^verbatim>\<open>renderBoomError\<close> sets the
  response status to \<open>n\<close> and renders, with static markup, the page
  \<^verbatim>\<open>errors/500\<close> exactly when \<open>n \<ge> 500\<close> and \<^verbatim>\<open>errors/400\<close> otherwise, with the
  payload's \<^verbatim>\<open>statusCode\<close>, \<^verbatim>\<open>error\<close> and \<^verbatim>\<open>message\<close> as props; the status is
  \<open>n\<close> whether the engine renders or throws. (A number outside that range is not a
  status code: zero is replaced by 500, for any other the setter throws.)
\<close>

theorem renderBoomError_payload:
  assumes "err_output err = Some out" and "payload out = Some p"
    and "statusCode p = Some n" and "100 \<le> n" and "n \<le> 999"
  shows "renderBoomError R err c =
           render R \<lparr>screen = (if n \<ge> 500 then ''errors/500'' else ''errors/400''),
                     props = Some (ErrorProps (Some n) (error p) (message p)),
                     options = Some \<lparr>staticMarkup = True\<rparr>\<rparr>
             (c\<lparr>status := n, explicitStatus := True\<rparr>)
       \<and> status (snd (renderBoomError R err c)) = n"
proof -
  from assms(4) have nz: "n \<noteq> 0" by simp
  have run: "renderBoomError R err c =
           render R \<lparr>screen = (if n \<ge> 500 then ''errors/500'' else ''errors/400''),
                     props = Some (ErrorProps (Some n) (error p) (message p)),
                     options = Some \<lparr>staticMarkup = True\<rparr>\<rparr>
             (c\<lparr>status := n, explicitStatus := True\<rparr>)"
    using assms nz by (simp add: renderBoomError_def set_status_def)
  have "status (snd (renderBoomError R err c)) = n"
    by (simp add: run render_def set_body_def split: sum.splits)
  with run show ?thesis by simp
qed

theorem renderBoomError_payload_witness:
  "err_output (badData ''Empty comments not allowed'')
     = Some \<lparr>payload = Some \<lparr>statusCode = Some 422, error = Some ''Unprocessable Entity'',
                              message = Some ''Empty comments not allowed''\<rparr>\<rparr>
   \<and> (100 :: int) \<le> 422
   \<and> (422 :: int) \<le> 999
   \<and> renderBoomError echo_engine (badData ''Empty comments not allowed'')
        (createContext \<lparr>comments = Some []\<rparr> Map.empty)
       = (Inr (''/errors/400'',
               ErrorProps (Some 422) (Some ''Unprocessable Entity'')
                 (Some ''Empty comments not allowed''),
               Some \<lparr>staticMarkup = True\<rparr>),
          \<lparr>session = \<lparr>comments = Some []\<rparr>, request_body = Map.empty, status = 422,
           explicitStatus = True,
           body = Html (''/errors/400'',
                        ErrorProps (Some 422) (Some ''Unprocessable Entity'')
                          (Some ''Empty comments not allowed''),
                        Some \<lparr>staticMarkup = True\<rparr>)\<rparr>)"
proof -
  have h1: "err_output (badData ''Empty comments not allowed'')
     = Some \<lparr>payload = Some \<lparr>statusCode = Some 422, error = Some ''Unprocessable Entity'',
                              message = Some ''Empty comments not allowed''\<rparr>\<rparr>"
    by (simp add: badData_def)
  have h2: "payload \<lparr>payload = Some \<lparr>statusCode = Some 422, error = Some ''Unprocessable Entity'',
                              message = Some ''Empty comments not allowed''\<rparr>\<rparr>
     = Some \<lparr>statusCode = Some 422, error = Some ''Unprocessable Entity'',
             message = Some ''Empty comments not allowed''\<rparr>"
    by simp
  have h3: "statusCode \<lparr>statusCode = Some 422, error = Some ''Unprocessable Entity'',
             message = Some ''Empty comments not allowed''\<rparr> = Some 422"
    by simp
  have h4: "(100 :: int) \<le> 422" by simp
  have h5: "(422 :: int) \<le> 999" by simp
  show ?thesis
    using h1 h4 h5
      renderBoomError_payload[OF h1 h2 h3 h4 h5, of echo_engine
        "createContext \<lparr>comments = Some []\<rparr> Map.empty"]
    by (simp add: render_def echo_engine_def set_body_def createContext_def)
qed

subsection \<open>C8: sessions are isolated\<close>

text \<open>
  C8. Take any sequence of requests, any token \<open>t\<close>, and two stores that agree on the
  session of \<open>t\<close> and are arbitrary elsewhere. The responses to the requests of \<open>t\<close>, and
  the session of \<open>t\<close> at the end, are those of serving the requests of \<open>t\<close> alone on the
  second store: what other tokens hold, list or append is never visible under \<open>t\<close>. And
  a request with another token leaves the session of \<open>t\<close> as it was.
\<close>

theorem sessions_isolated:
  assumes "st1 t = st2 t"
  shows "responses_to t rqs (fst (run R st1 rqs))
           = fst (run R st2 (filter (\<lambda>rq. req_token rq = t) rqs))
       \<and> snd (run R st1 rqs) t = snd (run R st2 (filter (\<lambda>rq. req_token rq = t) rqs)) t
       \<and> (\<forall>rq. req_token rq \<noteq> t \<longrightarrow> snd (serve R st1 rq) t = st1 t)"
  using run_isolated[of st1 t st2 rqs R] assms by (simp add: serve_other)

theorem sessions_isolated_witness:
  "(Map.empty :: store) ''A''
     = [''B'' \<mapsto> \<lparr>comments = Some [\<lparr>date = 1, comment = JStr ''other''\<rparr>]\<rparr>] ''A''
   \<and> responses_to ''A''
        [\<lparr>req_token = ''A'', req_route = PostApiComments,
          req_body = [''comment'' \<mapsto> JStr ''mine''], req_time = 10\<rparr>,
         \<lparr>req_token = ''B'', req_route = PostApiComments,
          req_body = [''comment'' \<mapsto> JStr ''theirs''], req_time = 11\<rparr>,
         \<lparr>req_token = ''A'', req_route = GetApiComments, req_body = Map.empty, req_time = 12\<rparr>]
        (fst (run echo_engine Map.empty
          [\<lparr>req_token = ''A'', req_route = PostApiComments,
            req_body = [''comment'' \<mapsto> JStr ''mine''], req_time = 10\<rparr>,
           \<lparr>req_token = ''B'', req_route = PostApiComments,
            req_body = [''comment'' \<mapsto> JStr ''theirs''], req_time = 11\<rparr>,
           \<lparr>req_token = ''A'', req_route = GetApiComments, req_body = Map.empty,
            req_time = 12\<rparr>]))
       = [(Inr (),
           \<lparr>session = \<lparr>comments = Some [\<lparr>date = 10, comment = JStr ''mine''\<rparr>]\<rparr>,
            request_body = [''comment'' \<mapsto> JStr ''mine''], status = 201,
            explicitStatus = True,
            body = JsonComment \<lparr>date = 10, comment = JStr ''mine''\<rparr>\<rparr>),
          (Inr (),
           \<lparr>session = \<lparr>comments = Some [\<lparr>date = 10, comment = JStr ''mine''\<rparr>]\<rparr>,
            request_body = Map.empty, status = 200, explicitStatus = True,
            body = JsonComments [\<lparr>date = 10, comment = JStr ''mine''\<rparr>]\<rparr>)]"
proof -
  let ?a1 = "\<lparr>req_token = ''A'', req_route = PostApiComments,
          req_body = [''comment'' \<mapsto> JStr ''mine''], req_time = 10\<rparr>"
  let ?b = "\<lparr>req_token = ''B'', req_route = PostApiComments,
          req_body = [''comment'' \<mapsto> JStr ''theirs''], req_time = 11\<rparr>"
  let ?a2 = "\<lparr>req_token = ''A'', req_route = GetApiComments, req_body = Map.empty,
          req_time = 12\<rparr>"
  let ?st2 = "[''B'' \<mapsto> \<lparr>comments = Some [\<lparr>date = 1, comment = JStr ''other''\<rparr>]\<rparr>]"
  have h: "(Map.empty :: store) ''A'' = ?st2 ''A''"
    by simp
  have alone: "fst (run echo_engine ?st2 [?a1, ?a2]) =
      [(Inr (),
           \<lparr>session = \<lparr>comments = Some [\<lparr>date = 10, comment = JStr ''mine''\<rparr>]\<rparr>,
            request_body = [''comment'' \<mapsto> JStr ''mine''], status = 201,
            explicitStatus = True,
            body = JsonComment \<lparr>date = 10, comment = JStr ''mine''\<rparr>\<rparr>),
          (Inr (),
           \<lparr>session = \<lparr>comments = Some [\<lparr>date = 10, comment = JStr ''mine''\<rparr>]\<rparr>,
            request_body = Map.empty, status = 200, explicitStatus = True,
            body = JsonComments [\<lparr>date = 10, comment = JStr ''mine''\<rparr>]\<rparr>)]"
    by (simp add: serve_def dispatch_def get_session_def createContext_def
          post_api_comments_def get_api_comments_def comments_or_empty_def body_field_def
          set_body_def set_status_def Let_def)
  have iso: "responses_to ''A'' [?a1, ?b, ?a2] (fst (run echo_engine Map.empty [?a1, ?b, ?a2]))
      = fst (run echo_engine ?st2 (filter (\<lambda>rq. req_token rq = ''A'') [?a1, ?b, ?a2]))"
    using sessions_isolated[of Map.empty "''A''" ?st2 "[?a1, ?b, ?a2]" echo_engine] h by blast
  have flt: "filter (\<lambda>rq. req_token rq = ''A'') [?a1, ?b, ?a2] = [?a1, ?a2]"
    by simp
  show ?thesis
  proof (intro conjI)
    show "(Map.empty :: store) ''A'' = ?st2 ''A''"
      by (rule h)
    show "responses_to ''A'' [?a1, ?b, ?a2] (fst (run echo_engine Map.empty [?a1, ?b, ?a2]))
      = [(Inr (),
           \<lparr>session = \<lparr>comments = Some [\<lparr>date = 10, comment = JStr ''mine''\<rparr>]\<rparr>,
            request_body = [''comment'' \<mapsto> JStr ''mine''], status = 201,
            explicitStatus = True,
            body = JsonComment \<lparr>date = 10, comment = JStr ''mine''\<rparr>\<rparr>),
          (Inr (),
           \<lparr>session = \<lparr>comments = Some [\<lparr>date = 10, comment = JStr ''mine''\<rparr>]\<rparr>,
            request_body = Map.empty, status = 200, explicitStatus = True,
            body = JsonComments [\<lparr>date = 10, comment = JStr ''mine''\<rparr>]\<rparr>)]"
      by (simp only: iso flt alone)
  qed
qed

subsection \<open>C9: a rejected request still creates the comments field\<close>

text \<open>
  C9. For every request whose \<^verbatim>\<open>comment\<close> field is missing or falsy: the handler
  throws the validation error, and the context it leaves differs from the one it got
  only in that the session's \<^verbatim>\<open>comments\<close> field holds the sequence read by
  \<^verbatim>\<open>ctx.session.comments || []\<close>. For a session without the field, the field now
  exists and is empty, so the session object has changed, while the comment sequence
  reads as before: empty.
\<close>

theorem post_api_comments_rejected_initializes:
  assumes "\<not> truthy (body_field c ''comment'')"
  shows "post_api_comments now c =
           (Inl (badData ''Empty comments not allowed''),
            c\<lparr>session := (session c)\<lparr>comments := Some (comments_or_empty (session c))\<rparr>\<rparr>)
       \<and> (comments (session c) = None \<longrightarrow>
            comments (session (snd (post_api_comments now c))) = Some []
          \<and> session (snd (post_api_comments now c)) \<noteq> session c
          \<and> comments_or_empty (session (snd (post_api_comments now c))) = []
          \<and> comments_or_empty (session c) = [])"
proof -
  have run: "post_api_comments now c =
           (Inl (badData ''Empty comments not allowed''),
            c\<lparr>session := (session c)\<lparr>comments := Some (comments_or_empty (session c))\<rparr>\<rparr>)"
    using assms by (rule post_api_comments_falsy)
  have fresh: "session (snd (post_api_comments now c)) \<noteq> session c"
    if absent: "comments (session c) = None"
  proof
    assume "session (snd (post_api_comments now c)) = session c"
    then have "comments (session (snd (post_api_comments now c))) = comments (session c)"
      by simp
    with absent show False
      by (simp add: run)
  qed
  show ?thesis
    using fresh by (simp add: run comments_or_empty_def)
qed

theorem post_api_comments_rejected_initializes_witness:
  "\<not> truthy (body_field (createContext \<lparr>comments = None\<rparr> Map.empty :: echo ctx) ''comment'')
   \<and> comments (session (createContext \<lparr>comments = None\<rparr> Map.empty :: echo ctx)) = None
   \<and> post_api_comments 1000 (createContext \<lparr>comments = None\<rparr> Map.empty :: echo ctx)
       = (Inl (badData ''Empty comments not allowed''),
          \<lparr>session = \<lparr>comments = Some []\<rparr>, request_body = Map.empty, status = 404,
           explicitStatus = False, body = NoBody\<rparr>)
   \<and> session (snd (post_api_comments 1000
        (createContext \<lparr>comments = None\<rparr> Map.empty :: echo ctx)))
       \<noteq> session (createContext \<lparr>comments = None\<rparr> Map.empty :: echo ctx)"
proof -
  have h1: "\<not> truthy (body_field
      (createContext \<lparr>comments = None\<rparr> Map.empty :: echo ctx) ''comment'')"
    by (simp add: createContext_def body_field_def)
  have h2: "comments (session (createContext \<lparr>comments = None\<rparr> Map.empty :: echo ctx)) = None"
    by (simp add: createContext_def)
  show ?thesis
    using h1 h2 post_api_comments_rejected_initializes[OF h1, of 1000]
    by (simp add: createContext_def comments_or_empty_def)
qed

subsection \<open>C10: GET /comments does not write the session\<close>

text \<open>
  C10. For every rendering engine and context: \<^verbatim>\<open>GET /comments\<close> asks the engine for
  the Comments page with the session's comment sequence (empty when the field is absent)
  as \<^verbatim>\<open>{ comments }\<close>, and whether the engine renders or throws the session is the
  one the handler got; a session without the \<^verbatim>\<open>comments\<close> field is still without
  it. When the engine renders, its HTML is the body.
\<close>

theorem get_comments_read_only:
  "session (snd (get_comments R c)) = session c
 \<and> comments (session (snd (get_comments R (c\<lparr>session := s\<lparr>comments := None\<rparr>\<rparr>)))) = None
 \<and> get_comments R c =
     render R \<lparr>screen = ''Comments'',
               props = Some (CommentsProps (comments_or_empty (session c))),
               options = None\<rparr> c
 \<and> (\<forall>html. R ''/Comments'' (CommentsProps (comments_or_empty (session c))) None = Inr html \<longrightarrow>
       body (snd (get_comments R c)) = Html html)"
  by (simp add: get_comments_def render_session Let_def)
     (simp add: render_def set_body_def set_status_def)

theorem get_comments_read_only_witness:
  "echo_engine ''/Comments''
      (CommentsProps (comments_or_empty
         (session (createContext \<lparr>comments = None\<rparr> Map.empty :: echo ctx)))) None
     = Inr (''/Comments'', CommentsProps [], None)
   \<and> body (snd (get_comments echo_engine (createContext \<lparr>comments = None\<rparr> Map.empty)))
       = Html (''/Comments'', CommentsProps [], None)
   \<and> session (snd (get_comments echo_engine (createContext \<lparr>comments = None\<rparr> Map.empty)))
       = \<lparr>comments = None\<rparr>"
proof -
  have h: "echo_engine ''/Comments''
      (CommentsProps (comments_or_empty
         (session (createContext \<lparr>comments = None\<rparr> Map.empty :: echo ctx)))) None
     = Inr (''/Comments'', CommentsProps [], None)"
    by (simp add: echo_engine_def createContext_def comments_or_empty_def)
  show ?thesis
    using h get_comments_read_only[of echo_engine
        "createContext \<lparr>comments = None\<rparr> Map.empty"]
    by (simp add: createContext_def comments_or_empty_def render_def echo_engine_def
          set_body_def set_status_def)
qed

end
